theory Spec2Isabelle
  imports Main
begin

section \<open>The configuration template (get-config-template.ts)\<close>

text \<open>
  Strings are byte lists: a TypeScript string literal is given by its UTF-8 bytes, so a
  character beyond ASCII is written as the list of its bytes (\<open>[CHR 0xE2, CHR 0x86, CHR 0x92]\<close>
  is the right arrow U+2192). The encoding is injective, so equality of strings is kept.
  The numbers of the template are integer literals and are modelled as \<open>int\<close>.
\<close>

subsection \<open>The interface \<open>ConfigOptions\<close>\<close>

text \<open>
  Each nested object type of the interface is a record of its own, named after the field
  that holds it. A field of a string-literal union type is a string at run time and is
  modelled as one; the declared literal sets are collected in \<open>ConfigOptions_enumerated\<close>.
  An array of \<open>{ key, value }\<close> or \<open>{ displayName, command }\<close> objects is a list of pairs.
\<close>

record DialogPaths =
  askFileDialog :: string
  askDirDialog :: string
  askLangFileDialog :: string

record Window =
  nativeAppearance :: bool
  vibrancy :: bool
  sidebarVisible :: bool
  currentSidebarTab :: string
  recentGlobalSearches :: "string list"

record Ui =
  fileManagerSplitSize :: "int \<times> int"
  editorSidebarSplitSize :: "int \<times> int"

record Export =
  dir :: string
  stripTags :: bool
  stripLinks :: string
  cslLibrary :: string
  cslStyle :: string
  useBundledPandoc :: bool
  singleFileLastExporter :: string
  exportQmdWithQuarto :: bool
  customCommands :: "(string \<times> string) list"

record Zkn =
  idRE :: string
  idGen :: string
  linkFilenameOnly :: bool
  linkWithFilename :: string
  linkFormat :: string
  autoSearch :: bool
  customDirectory :: string

record Variants =
  en :: string
  de :: string
  pt :: string
  ca :: string

record LanguageTool =
  active :: bool
  level :: string
  motherTongue :: string
  variants :: Variants
  provider :: string
  customServer :: string
  username :: string
  apiKey :: string

record Lint =
  markdown :: bool
  languageTool :: LanguageTool

record MagicQuotes =
  primary :: string
  secondary :: string

record AutoCorrect =
  active :: bool
  magicQuotes :: MagicQuotes
  replacements :: "(string \<times> string) list"
  matchWholeWords :: bool

record Editor =
  autocompleteSuggestEmojis :: bool
  autoSave :: string
  citeStyle :: string
  autoCloseBrackets :: bool
  showLinkPreviews :: bool
  showStatusbar :: bool
  showFormattingToolbar :: bool
  showWhitespace :: bool
  defaultSaveImagePath :: string
  enableTableHelper :: bool
  indentUnit :: int
  indentWithTabs :: bool
  fontSize :: int
  countChars :: bool
  inputMode :: string
  boldFormatting :: string
  italicFormatting :: string
  readabilityAlgorithm :: string
  lint :: Lint
  autoCorrect :: AutoCorrect

record Display =
  theme :: string
  hideToolbarInDistractionFree :: bool
  markdownFileExtensions :: bool
  imageWidth :: int
  imageHeight :: int
  renderCitations :: bool
  renderIframes :: bool
  renderImages :: bool
  renderLinks :: bool
  renderMath :: bool
  renderTasks :: bool
  renderHTags :: bool
  renderEmphasis :: bool

record Watchdog =
  activatePolling :: bool
  stabilityThreshold :: int

record System =
  deleteOnFail :: bool
  leaveAppRunning :: bool
  avoidNewTabs :: bool
  iframeWhitelist :: "string list"
  checkForUpdates :: bool
  zoomBehavior :: string

record DisplayToolbarButtons =
  showOpenPreferencesButton :: bool
  showNewFileButton :: bool
  showPreviousFileButton :: bool
  showNextFileButton :: bool
  showToggleReadabilityButton :: bool
  showMarkdownCommentButton :: bool
  showMarkdownLinkButton :: bool
  showMarkdownImageButton :: bool
  showMarkdownMakeTaskListButton :: bool
  showInsertTableButton :: bool
  showInsertFootnoteButton :: bool
  showDocumentInfoText :: bool
  showPomodoroButton :: bool

record ConfigOptions =
  version :: string
  openPaths :: "string list"
  openDirectory :: "string option"
  dialogPaths :: DialogPaths
  window :: Window
  ui :: Ui
  attachmentExtensions :: "string list"
  darkMode :: bool
  alwaysReloadFiles :: bool
  autoDarkMode :: string
  autoDarkModeStart :: string
  autoDarkModeEnd :: string
  fileMeta :: bool
  fileMetaTime :: string
  sorting :: string
  sortFoldersFirst :: bool
  muteLines :: bool
  fileManagerMode :: string
  fileNameDisplay :: string
  newFileNamePattern :: string
  newFileDontPrompt :: bool
  export :: Export
  zkn :: Zkn
  editor :: Editor
  display :: Display
  selectedDicts :: "string list"
  appLang :: string
  debug :: bool
  watchdog :: Watchdog
  system :: System
  checkForBeta :: bool
  displayToolbarButtons :: DisplayToolbarButtons
  uuid :: string

text \<open>
  The literal sets of the interface's string-union fields: a configuration conforms when
  each of these fields holds one of its declared literals.
\<close>

definition ConfigOptions_enumerated :: "ConfigOptions \<Rightarrow> bool" where
  "ConfigOptions_enumerated c \<longleftrightarrow>
     currentSidebarTab (window c) \<in> {''toc'', ''references'', ''relatedFiles'', ''attachments''} \<and>
     autoDarkMode c \<in> {''off'', ''system'', ''schedule'', ''auto''} \<and>
     fileMetaTime c \<in> {''modtime'', ''creationtime''} \<and>
     sorting c \<in> {''natural'', ''ascii''} \<and>
     fileManagerMode c \<in> {''thin'', ''combined'', ''expanded''} \<and>
     fileNameDisplay c \<in> {''filename'', ''title'', ''heading'', ''title+heading''} \<and>
     dir (export c) \<in> {''temp'', ''cwd'', ''ask''} \<and>
     stripLinks (export c) \<in> {''full'', ''unlink'', ''no''} \<and>
     linkWithFilename (zkn c) \<in> {''always'', ''never'', ''withID''} \<and>
     linkFormat (zkn c) \<in> {''link|title'', ''title|link''} \<and>
     autoSave (editor c) \<in> {''off'', ''immediately'', ''delayed''} \<and>
     citeStyle (editor c) \<in> {''in-text'', ''in-text-suffix'', ''regular''} \<and>
     inputMode (editor c) \<in> {''default'', ''vim'', ''emacs''} \<and>
     boldFormatting (editor c) \<in> {''**'', ''__''} \<and>
     italicFormatting (editor c) \<in> {''_'', ''*''} \<and>
     readabilityAlgorithm (editor c) \<in>
       {''dale-chall'', ''gunning-fog'', ''coleman-liau'', ''automated-readability''} \<and>
     level (languageTool (lint (editor c))) \<in> {''picky'', ''default''} \<and>
     provider (languageTool (lint (editor c))) \<in> {''official'', ''custom''} \<and>
     theme (display c) \<in> {''berlin'', ''frankfurt'', ''bielefeld'', ''karl-marx-stadt'', ''bordeaux''} \<and>
     zoomBehavior (system c) \<in> {''gui'', ''editor''}"

subsection \<open>The host environment\<close>

text \<open>
  \<open>bcp47.parse\<close> belongs to an external library. Of the schema it returns the generator
  reads the property \<open>language\<close> only, and compares it with \<open>undefined\<close> by \<open>===\<close>.
  A property of a JavaScript object is \<open>undefined\<close>, \<open>null\<close> or a value, and only the
  first is strictly equal to \<open>undefined\<close>.
\<close>

datatype 'a property = Undefined | Null | Val 'a

record Schema =
  language :: "string property"

text \<open>The object returned by \<open>getLanguageFile\<close>; the generator reads its \<open>tag\<close>.\<close>

record Candidate =
  tag :: string

text \<open>A thrown JavaScript exception, with its message.\<close>

datatype error = Thrown string

text \<open>
  What the generator consumes from outside the module:
  \<^item> \<open>getVersion\<close>, \<open>getLocale\<close>: what Electron's \<open>app.getVersion()\<close> and
    \<open>app.getLocale()\<close> return. The version of a running application is fixed.
  \<^item> \<open>platform\<close>: \<open>process.platform\<close>.
  \<^item> \<open>parse\<close>: the library function \<open>bcp47.parse\<close>.
  \<^item> \<open>languageFile\<close>: the lookup \<open>getLanguageFile\<close> of \<open>@common/util/get-language-file\<close>,
    over the translations installed on the host. Its body is not part of the module; as a
    parameter it is any function, also one that throws.
  The string that the call \<open>uuid4()\<close> returns is random; it is the second argument of the
  generator.
\<close>

record host =
  getVersion :: string
  getLocale :: string
  platform :: string
  parse :: "string \<Rightarrow> Schema"
  languageFile :: "string \<Rightarrow> error + Candidate"

subsection \<open>Module constants\<close>

text \<open>\<open>const ZETTLR_VERSION = app.getVersion()\<close>, evaluated once when the module is loaded.\<close>

definition ZETTLR_VERSION :: "host \<Rightarrow> string" where
  "ZETTLR_VERSION h = getVersion h"

definition ATTACHMENT_EXTENSIONS :: "string list" where
  "ATTACHMENT_EXTENSIONS =
    [''.pdf'', ''.odt'', ''.odp'', ''.ods'',
     ''.doc'', ''.docx'', ''.xls'', ''.xlsx'', ''.ppt'', ''.pptx'',
     ''.do'', ''.r'', ''.py'',
     ''.sav'', ''.zsav'', ''.csv'', ''.tsv'',
     ''.png'', ''.jpg'', ''.jpeg'', ''.gif'', ''.tiff'']"

subsection \<open>\<open>getConfigTemplate\<close>\<close>

text \<open>
  The locale is resolved first; an exception of the lookup leaves the function before the
  object is built. The object literal follows the source field by field.
\<close>

definition getConfigTemplate :: "host \<Rightarrow> string \<Rightarrow> error + ConfigOptions" where
  "getConfigTemplate h uuid4 =
    (let locale = getLocale h;
         locSchema = parse h locale
     in case (if language locSchema = Undefined
              then Inr ''en-US''
              else map_sum id tag (languageFile h locale)) of
          Inl e \<Rightarrow> Inl e
        | Inr locale \<Rightarrow> Inr
     \<lparr> version = ZETTLR_VERSION h,
       openPaths = [],
       openDirectory = None,
       dialogPaths = \<lparr>
         askFileDialog = '''',
         askDirDialog = '''',
         askLangFileDialog = '''' \<rparr>,
       window = \<lparr>
         nativeAppearance = (platform h = ''darwin''),
         vibrancy = (platform h = ''darwin''),
         sidebarVisible = False,
         currentSidebarTab = ''toc'',
         recentGlobalSearches = [] \<rparr>,
       ui = \<lparr>
         fileManagerSplitSize = (20, 80),
         editorSidebarSplitSize = (80, 20) \<rparr>,
       attachmentExtensions = ATTACHMENT_EXTENSIONS,
       darkMode = False,
       alwaysReloadFiles = True,
       autoDarkMode = ''system'',
       autoDarkModeStart = ''21:00'',
       autoDarkModeEnd = ''06:00'',
       fileMeta = True,
       fileMetaTime = ''modtime'',
       sorting = ''natural'',
       sortFoldersFirst = True,
       muteLines = True,
       fileManagerMode = ''combined'',
       fileNameDisplay = ''title+heading'',
       newFileNamePattern = ''%id.md'',
       newFileDontPrompt = False,
       export = \<lparr>
         dir = ''temp'',
         stripTags = False,
         stripLinks = ''full'',
         cslLibrary = '''',
         cslStyle = '''',
         useBundledPandoc = True,
         singleFileLastExporter = ''html'',
         exportQmdWithQuarto = False,
         customCommands = [] \<rparr>,
       zkn = \<lparr>
         idRE = ''('' @ [CHR 0x5C] @ ''d{14})'',
         idGen = ''%Y%M%D%h%m%s'',
         linkFilenameOnly = False,
         linkWithFilename = ''never'',
         linkFormat = ''link|title'',
         autoSearch = True,
         customDirectory = '''' \<rparr>,
       editor = \<lparr>
         autocompleteSuggestEmojis = True,
         autoSave = ''off'',
         citeStyle = ''regular'',
         autoCloseBrackets = True,
         showLinkPreviews = True,
         showStatusbar = True,
         showFormattingToolbar = True,
         showWhitespace = False,
         defaultSaveImagePath = '''',
         enableTableHelper = True,
         indentUnit = 4,
         indentWithTabs = False,
         fontSize = 18,
         countChars = False,
         inputMode = ''default'',
         boldFormatting = ''**'',
         italicFormatting = ''_'',
         readabilityAlgorithm = ''dale-chall'',
         lint = \<lparr>
           markdown = True,
           languageTool = \<lparr>
             LanguageTool.active = False,
             level = ''picky'',
             motherTongue = '''',
             variants = \<lparr>
               en = ''en-US'',
               de = ''de-DE'',
               pt = ''pt-PT'',
               ca = ''ca-ES'' \<rparr>,
             provider = ''official'',
             customServer = '''',
             username = '''',
             apiKey = '''' \<rparr> \<rparr>,
         autoCorrect = \<lparr>
           AutoCorrect.active = True,
           magicQuotes = \<lparr>
             primary = [CHR 0x22, CHR 0xE2, CHR 0x80, CHR 0xA6, CHR 0x22],
             secondary = [CHR 0x27, CHR 0xE2, CHR 0x80, CHR 0xA6, CHR 0x27] \<rparr>,
           replacements =
              [(''-->'', [CHR 0xE2, CHR 0x86, CHR 0x92]),
               ([CHR 0xE2, CHR 0x80, CHR 0x93] @ ''>'', [CHR 0xE2, CHR 0x86, CHR 0x92]),
               (''<--'', [CHR 0xE2, CHR 0x86, CHR 0x90]),
               (''<->'', [CHR 0xE2, CHR 0x86, CHR 0x94]),
               (''<-->'', [CHR 0xE2, CHR 0x86, CHR 0x94]),
               (''==>'', [CHR 0xE2, CHR 0x87, CHR 0x92]),
               (''<=='', [CHR 0xE2, CHR 0x87, CHR 0x90]),
               (''<=>'', [CHR 0xE2, CHR 0x87, CHR 0x94]),
               (''<==>'', [CHR 0xE2, CHR 0x87, CHR 0x94]),
               (''!='', [CHR 0xE2, CHR 0x89, CHR 0xA0]),
               (''<>'', [CHR 0xE2, CHR 0x89, CHR 0xA0]),
               (''+-'', [CHR 0xC2, CHR 0xB1]),
               ('':time:'', [CHR 0xC3, CHR 0x97]),
               ('':division:'', [CHR 0xC3, CHR 0xB7]),
               (''<='', [CHR 0xE2, CHR 0x89, CHR 0xA4]),
               (''>='', [CHR 0xE2, CHR 0x89, CHR 0xA5]),
               (''1/2'', [CHR 0xC2, CHR 0xBD]),
               (''1/3'', [CHR 0xE2, CHR 0x85, CHR 0x93]),
               (''2/3'', [CHR 0xE2, CHR 0x85, CHR 0x94]),
               (''1/4'', [CHR 0xC2, CHR 0xBC]),
               (''3/4'', [CHR 0xC2, CHR 0xBE]),
               (''1/8'', [CHR 0xE2, CHR 0x85, CHR 0x9B]),
               (''3/8'', [CHR 0xE2, CHR 0x85, CHR 0x9C]),
               (''5/8'', [CHR 0xE2, CHR 0x85, CHR 0x9D]),
               (''7/8'', [CHR 0xE2, CHR 0x85, CHR 0x9E]),
               (''mm2'', ''mm'' @ [CHR 0xC2, CHR 0xB2]),
               (''cm2'', ''cm'' @ [CHR 0xC2, CHR 0xB2]),
               (''m2'', ''m'' @ [CHR 0xC2, CHR 0xB2]),
               (''km2'', ''km'' @ [CHR 0xC2, CHR 0xB2]),
               (''mm3'', ''mm'' @ [CHR 0xC2, CHR 0xB3]),
               (''cm3'', ''cm'' @ [CHR 0xC2, CHR 0xB3]),
               (''ccm'', ''cm'' @ [CHR 0xC2, CHR 0xB3]),
               (''m3'', ''m'' @ [CHR 0xC2, CHR 0xB3]),
               (''km3'', ''km'' @ [CHR 0xC2, CHR 0xB3]),
               ('':sup2:'', [CHR 0xC2, CHR 0xB2]),
               ('':sup3:'', [CHR 0xC2, CHR 0xB3]),
               ('':deg:'', [CHR 0xC2, CHR 0xB0]),
               ('':eur'', [CHR 0xE2, CHR 0x82, CHR 0xAC]),
               ('':gbp'', [CHR 0xC2, CHR 0xA3]),
               ('':yen'', [CHR 0xC2, CHR 0xA5]),
               ('':cent'', [CHR 0xC2, CHR 0xA2]),
               ('':inr:'', [CHR 0xE2, CHR 0x82, CHR 0xB9]),
               (''(c)'', [CHR 0xC2, CHR 0xA9]),
               (''(tm)'', [CHR 0xE2, CHR 0x84, CHR 0xA2]),
               (''(r)'', [CHR 0xC2, CHR 0xAE]),
               (''...'', [CHR 0xE2, CHR 0x80, CHR 0xA6]),
               (''--'', [CHR 0xE2, CHR 0x80, CHR 0x93]),
               (''---'', [CHR 0xE2, CHR 0x80, CHR 0x94])],
           matchWholeWords = False \<rparr> \<rparr>,
       display = \<lparr>
         theme = ''berlin'',
         hideToolbarInDistractionFree = False,
         markdownFileExtensions = False,
         imageWidth = 100,
         imageHeight = 50,
         renderCitations = True,
         renderIframes = True,
         renderImages = True,
         renderLinks = True,
         renderMath = True,
         renderTasks = True,
         renderHTags = False,
         renderEmphasis = False \<rparr>,
       selectedDicts = [],
       appLang = locale,
       debug = False,
       watchdog = \<lparr>
         activatePolling = False,
         stabilityThreshold = 1000 \<rparr>,
       system = \<lparr>
         deleteOnFail = False,
         leaveAppRunning = False,
         avoidNewTabs = False,
         iframeWhitelist = [''www.youtube.com'', ''player.vimeo.com''],
         checkForUpdates = True,
         zoomBehavior = ''gui'' \<rparr>,
       checkForBeta = False,
       displayToolbarButtons = \<lparr>
         showOpenPreferencesButton = True,
         showNewFileButton = True,
         showPreviousFileButton = True,
         showNextFileButton = True,
         showToggleReadabilityButton = True,
         showMarkdownCommentButton = True,
         showMarkdownLinkButton = True,
         showMarkdownImageButton = True,
         showMarkdownMakeTaskListButton = True,
         showInsertTableButton = True,
         showInsertFootnoteButton = True,
         showDocumentInfoText = True,
         showPomodoroButton = True \<rparr>,
       uuid = uuid4 \<rparr>)"

subsection \<open>The translation lookup\<close>

text \<open>
  Modelled from the spec: \<open>getLanguageFile\<close> (\<open>@common/util/get-language-file\<close>) is not
  among the sources; only its call \<open>getLanguageFile(locale).tag\<close> is. The spec's words:
  "match the parsed locale against the set of available translation files and select the
  closest available tag (exact match preferred, then language-only match, then fallback)",
  the fallback being the literal "en-US", and no error is surfaced.
  \<open>parseTag\<close> is the tag parser and \<open>installed\<close> the tags of the installed translations.
  An exact match is an installed tag equal to the query; a language-only match is an
  installed tag whose language subtag is the query's.
\<close>

definition getLanguageFile :: "(string \<Rightarrow> Schema) \<Rightarrow> string list \<Rightarrow> string \<Rightarrow> Candidate" where
  "getLanguageFile parseTag installed query =
    (case find (\<lambda>t. t = query) installed of
       Some t \<Rightarrow> \<lparr> tag = t \<rparr>
     | None \<Rightarrow>
        (case find (\<lambda>t. language (parseTag t) = language (parseTag query)) installed of
           Some t \<Rightarrow> \<lparr> tag = t \<rparr>
         | None \<Rightarrow> \<lparr> tag = ''en-US'' \<rparr>))"

section \<open>The item mixin of the file manager (TreeItem and FileItem)\<close>

subsection \<open>Data\<close>

text \<open>
  The descriptor \<open>this.obj\<close> of a file or directory. \<open>addr\<close> is the identity of the
  JavaScript object: \<open>===\<close> on two objects compares identities, not contents.
  \<open>parent\<close> is \<open>null\<close> (\<open>None\<close>) for a root. \<open>dirNotFoundFlag\<close> is compared with
  \<open>true\<close> by \<open>===\<close>; it may be absent.
\<close>

datatype descriptor =
  Descriptor (addr: nat) (type: string) (path: string) (name: string)
    (parent: "descriptor option") (dirNotFoundFlag: "bool property")

text \<open>
  The triggering event. \<open>propagationStopped\<close> and \<open>defaultPrevented\<close> record the calls of
  \<open>stopPropagation()\<close> and \<open>preventDefault()\<close>.
\<close>

record event =
  type :: string
  button :: int
  altKey :: bool
  propagationStopped :: bool
  defaultPrevented :: bool

text \<open>
  The payloads the two methods send: \<open>{ path, windowId, leafId, newTab }\<close>, a bare path,
  and \<open>{ path, name }\<close>. A call \<open>ipcRenderer.invoke(channel, { command, payload })\<close> is
  recorded as \<open>Invoke channel message\<close>.
\<close>

datatype payload =
    OpenFile string string "string property" bool
  | Path string
  | Rename string string

record message =
  command :: string
  payload :: payload

datatype ipc = Invoke string message

text \<open>The part of \<open>this.$store.state\<close> that is read.\<close>

record store =
  selectedDirectory :: "descriptor option"
  lastLeafId :: "string property"

text \<open>
  The component (\<open>this\<close>): the props \<open>obj\<close> and \<open>windowId\<close>, the data \<open>nameEditing\<close>,
  and \<open>hasChildren\<close> and \<open>collapsed\<close>, which only the tree item defines.
\<close>

record component =
  obj :: descriptor
  windowId :: string
  nameEditing :: bool
  hasChildren :: "bool property"
  collapsed :: "bool property"
  store :: store

text \<open>
  What the methods do outside the component: the calls made on \<open>ipcRenderer\<close>, in order,
  the number of calls of \<open>this.$root.toggleFileList()\<close>, and the lines of
  \<open>console.error\<close>.
\<close>

record world =
  ipcRenderer :: "ipc list"
  toggleFileList :: nat
  console :: "string list"

subsection \<open>\<open>requestSelection\<close>\<close>

definition requestSelection :: "event \<Rightarrow> component \<Rightarrow> world \<Rightarrow> event \<times> component \<times> world" where
  "requestSelection ev this w =
    (if dirNotFoundFlag (obj this) = Val True then (ev\<lparr>propagationStopped := True\<rparr>, this, w)
     else if button ev = 2 then (ev, this, w)
     else
       let middleClick = (event.type ev = ''auxclick'' \<and> button ev = 1);
           alt = altKey ev;
           ty = descriptor.type (obj this);
           ev' = (if middleClick then ev\<lparr>defaultPrevented := True\<rparr> else ev)
       in if ty \<in> set [''file'', ''code''] then
            (ev', this,
             w\<lparr>ipcRenderer := ipcRenderer w @
               [Invoke ''documents-provider''
                 \<lparr> command = ''open-file'',
                   payload = OpenFile (path (obj this)) (windowId this) (lastLeafId (store this))
                               (middleClick \<or> (alt \<and> ty = ''file'')) \<rparr>]\<rparr>)
          else
            (case (if alt then parent (obj this) else None) of
               Some p \<Rightarrow>
                 (ev', this,
                  w\<lparr>ipcRenderer := ipcRenderer w @
                    [Invoke ''application''
                      \<lparr> command = ''set-open-directory'', payload = Path (path p) \<rparr>]\<rparr>)
             | None \<Rightarrow>
                 if ty = ''directory'' then
                   (let w' =
                          (if map_option addr (selectedDirectory (store this)) = Some (addr (obj this))
                           then w\<lparr>toggleFileList := Suc (toggleFileList w)\<rparr>
                           else w\<lparr>ipcRenderer := ipcRenderer w @
                                  [Invoke ''application''
                                    \<lparr> command = ''set-open-directory'',
                                      payload = Path (path (obj this)) \<rparr>]\<rparr>);
                        this' =
                          (if hasChildren this = Val True
                           then this\<lparr>collapsed := Val (collapsed this = Val False)\<rparr>
                           else this)
                    in (ev', this', w'))
                 else (ev', this, w)))"

subsection \<open>\<open>finishNameEditing\<close>\<close>

text \<open>
  The method returns at once. When the name has changed, it has handed one message to
  \<open>ipcRenderer.invoke\<close> and chained two handlers on the promise it got back; the third
  component of the result says whether such a promise is pending.
\<close>

definition finishNameEditing :: "string \<Rightarrow> component \<Rightarrow> world \<Rightarrow> component \<times> world \<times> bool" where
  "finishNameEditing newName this w =
    (if newName = name (obj this) then (this, w, False)
     else
       let cmd = (if descriptor.type (obj this) = ''directory'' then ''dir-rename'' else ''file-rename'')
       in (this,
           w\<lparr>ipcRenderer := ipcRenderer w @
             [Invoke ''application''
               \<lparr> command = cmd, payload = Rename (path (obj this)) newName \<rparr>]\<rparr>,
           True))"

text \<open>
  The promise settles with the reply of the main process. The handlers then run on the
  state of that moment: \<open>.catch(e => console.error(e))\<close> on a rejection, and after it
  \<open>.finally(() => { this.nameEditing = false })\<close> in both cases. (The watcher on
  \<open>nameEditing\<close> returns at once for the new value \<open>false\<close>.)
\<close>

datatype settlement = Resolved | Rejected string

definition finishNameEditing_settled :: "settlement \<Rightarrow> component \<Rightarrow> world \<Rightarrow> component \<times> world" where
  "finishNameEditing_settled r this w =
    (let w' = (case r of Resolved \<Rightarrow> w | Rejected e \<Rightarrow> w\<lparr>console := console w @ [e]\<rparr>)
     in (this\<lparr>nameEditing := False\<rparr>, w'))"

section \<open>Example environments\<close>

text \<open>
  Concrete inputs at which the definitions are evaluated. \<open>example_parse\<close> stands in
  for the tag parser: it knows the few well-formed tags used below, and reports every other
  string as a failed parse, by a schema whose \<open>language\<close> is \<open>null\<close>.
\<close>

definition example_parse :: "string \<Rightarrow> Schema" where
  "example_parse t =
    (if t \<in> set [''de-DE'', ''de-CH''] then \<lparr> language = Val ''de'' \<rparr>
     else if t \<in> set [''en-US'', ''en-GB''] then \<lparr> language = Val ''en'' \<rparr>
     else if t \<in> set [''ja-JP''] then \<lparr> language = Val ''ja'' \<rparr>
     else \<lparr> language = Null \<rparr>)"

definition example_installed :: "string list" where
  "example_installed = [''en-GB'', ''en-US'', ''de-DE'']"

text \<open>A host whose lookup answers every query with the queried tag.\<close>

definition example_host :: "string \<Rightarrow> string \<Rightarrow> host" where
  "example_host locale os =
    \<lparr> getVersion = ''3.0.0'',
      getLocale = locale,
      platform = os,
      parse = example_parse,
      languageFile = (\<lambda>query. Inr \<lparr> tag = query \<rparr>) \<rparr>"

text \<open>A host whose lookup is \<open>getLanguageFile\<close> over three installed translations.\<close>

definition example_translated_host :: "string \<Rightarrow> host" where
  "example_translated_host locale =
    \<lparr> getVersion = ''3.0.0'',
      getLocale = locale,
      platform = ''linux'',
      parse = example_parse,
      languageFile = (\<lambda>query. Inr (getLanguageFile example_parse example_installed query)) \<rparr>"



definition example_uuid :: string where
  "example_uuid = ''110ec58a-a0f2-4ac4-8393-c866d813b8d1''"

definition example_dir :: "bool property \<Rightarrow> descriptor" where
  "example_dir flag = Descriptor 1 ''directory'' ''/notes'' ''notes'' None flag"

definition example_file :: descriptor where
  "example_file = Descriptor 2 ''file'' ''/notes/a.md'' ''a.md'' (Some (example_dir Undefined)) Undefined"

definition example_component :: "descriptor \<Rightarrow> component" where
  "example_component d =
    \<lparr> obj = d, windowId = ''main'', nameEditing = True, hasChildren = Val True,
      collapsed = Val True,
      store = \<lparr> selectedDirectory = None, lastLeafId = Val ''leaf-1'' \<rparr> \<rparr>"

definition example_click :: event where
  "example_click =
    \<lparr> type = ''click'', button = 0, altKey = False,
      propagationStopped = False, defaultPrevented = False \<rparr>"

definition example_world :: world where
  "example_world = \<lparr> ipcRenderer = [], toggleFileList = 0, console = [] \<rparr>"

section \<open>Properties of the configuration template\<close>

subsection \<open>Auxiliary facts\<close>

lemma case_sum_InrD:
  "(case x of Inl e \<Rightarrow> Inl e | Inr a \<Rightarrow> Inr (f a)) = Inr c \<Longrightarrow> \<exists>a. x = Inr a \<and> c = f a"
  by (cases x) auto

lemma find_Some_set: "find P xs = Some x \<Longrightarrow> x \<in> set xs \<and> P x"
  by (induction xs) (auto split: if_splits)

lemma find_None_set: "find P xs = None \<Longrightarrow> x \<in> set xs \<Longrightarrow> \<not> P x"
  by (induction xs) (auto split: if_splits)

text \<open>Where the language subtag is not \<open>undefined\<close>, the tag comes from the lookup.\<close>

lemma getConfigTemplate_lookup:
  assumes "language (parse h (getLocale h)) \<noteq> Undefined"
    and "languageFile h (getLocale h) = Inr cand"
  shows "\<exists>c. getConfigTemplate h u = Inr c \<and> appLang c = tag cand"
  using assms by (simp add: getConfigTemplate_def)



text \<open>
  The lookup as the spec describes it falls back to "en-US" for a query that is not
  installed and whose language subtag (also \<open>null\<close>) no installed tag shares.
\<close>

lemma getLanguageFile_fallback:
  assumes "query \<notin> set installed"
    and "\<forall>t \<in> set installed. language (parseTag t) \<noteq> language (parseTag query)"
  shows "getLanguageFile parseTag installed query = \<lparr> tag = ''en-US'' \<rparr>"
proof -
  have "find (\<lambda>t. t = query) installed = None"
    using assms(1) by (auto simp: find_None_iff)
  moreover have "find (\<lambda>t. language (parseTag t) = language (parseTag query)) installed = None"
    using assms(2) by (auto simp: find_None_iff)
  ultimately show ?thesis
    by (simp add: getLanguageFile_def)
qed

text \<open>The fields that one run of the generator takes from its environment.\<close>

lemma getConfigTemplate_host_fields:
  assumes "getConfigTemplate h u = Inr c"
  shows "version c = ZETTLR_VERSION h"
    and "uuid c = u"
    and "attachmentExtensions c = ATTACHMENT_EXTENSIONS"
    and "nativeAppearance (window c) = (platform h = ''darwin'')"
    and "vibrancy (window c) = (platform h = ''darwin'')"
  using assms unfolding getConfigTemplate_def Let_def
  by (drule_tac case_sum_InrD, clarsimp)+

text \<open>
  Two results, of any two environments, agree once \<open>version\<close>, \<open>appLang\<close>, \<open>uuid\<close> and the
  two platform-dependent window fields are overwritten with the same values.
\<close>

lemma getConfigTemplate_masked:
  assumes "getConfigTemplate h1 u1 = Inr c1" and "getConfigTemplate h2 u2 = Inr c2"
  shows "c1\<lparr>version := v, appLang := l, uuid := u,
             window := (window c1)\<lparr>nativeAppearance := a, vibrancy := b\<rparr>\<rparr>
         = c2\<lparr>version := v, appLang := l, uuid := u,
             window := (window c2)\<lparr>nativeAppearance := a, vibrancy := b\<rparr>\<rparr>"
  using assms unfolding getConfigTemplate_def Let_def
  by (drule_tac case_sum_InrD, drule_tac case_sum_InrD) clarsimp

lemma getConfigTemplate_same_platform:
  assumes r1: "getConfigTemplate h1 u1 = Inr c1" and r2: "getConfigTemplate h2 u2 = Inr c2"
    and same: "(platform h1 = ''darwin'') = (platform h2 = ''darwin'')"
  shows "c1\<lparr>version := v, appLang := l, uuid := u\<rparr> = c2\<lparr>version := v, appLang := l, uuid := u\<rparr>"
proof -
  let ?d = "platform h1 = ''darwin''"
  have w1: "window c1 = (window c1)\<lparr>nativeAppearance := ?d, vibrancy := ?d\<rparr>"
    using getConfigTemplate_host_fields(4,5) [OF r1] by simp
  have w2: "window c2 = (window c2)\<lparr>nativeAppearance := ?d, vibrancy := ?d\<rparr>"
    using getConfigTemplate_host_fields(4,5) [OF r2] same by simp
  have "c1\<lparr>version := v, appLang := l, uuid := u\<rparr>
      = c1\<lparr>version := v, appLang := l, uuid := u, window := window c1\<rparr>"
    by simp
  also have "\<dots> = c1\<lparr>version := v, appLang := l, uuid := u,
                    window := (window c1)\<lparr>nativeAppearance := ?d, vibrancy := ?d\<rparr>\<rparr>"
    using w1 by simp
  also have "\<dots> = c2\<lparr>version := v, appLang := l, uuid := u,
                    window := (window c2)\<lparr>nativeAppearance := ?d, vibrancy := ?d\<rparr>\<rparr>"
    by (rule getConfigTemplate_masked [OF r1 r2])
  also have "\<dots> = c2\<lparr>version := v, appLang := l, uuid := u, window := window c2\<rparr>"
    using w2 by simp
  also have "\<dots> = c2\<lparr>version := v, appLang := l, uuid := u\<rparr>"
    by simp
  finally show ?thesis .
qed

lemma getConfigTemplate_enumerated:
  assumes "getConfigTemplate h u = Inr c"
  shows "ConfigOptions_enumerated c"
  using assms unfolding getConfigTemplate_def Let_def
  by (drule_tac case_sum_InrD) (clarsimp simp add: ConfigOptions_enumerated_def)

text \<open>The lookup of \<open>example_host\<close> answers, so the generator returns on it.\<close>

lemma example_host_returns:
  "\<exists>c. getConfigTemplate (example_host locale os) u = Inr c"
  by (simp add: getConfigTemplate_def example_host_def Let_def)

lemma example_translated_host_language:
  "language (parse (example_translated_host ''de-DE'') (getLocale (example_translated_host ''de-DE'')))
     = Val ''de''"
  "language (parse (example_translated_host ''de-CH'') (getLocale (example_translated_host ''de-CH'')))
     = Val ''de''"
  "language (parse (example_translated_host ''ja-JP'') (getLocale (example_translated_host ''ja-JP'')))
     = Val ''ja''"
  by (simp_all add: example_translated_host_def example_parse_def)

lemma example_translated_host_lookup:
  "languageFile (example_translated_host locale) =
     (\<lambda>query. Inr (getLanguageFile (parse (example_translated_host locale)) example_installed query))"
  by (simp add: example_translated_host_def)

subsection \<open>The claims about the generator\<close>




text \<open>
  C2: in one host environment (same locale, version, platform, parser and installed
  translations), two calls differ in the \<open>uuid\<close> field at most: the first result is the
  second with the first call's UUID written into \<open>uuid\<close>. Should the lookup throw, both
  calls throw the same exception.
\<close>

theorem getConfigTemplate_twice:
  "getConfigTemplate h u1 = map_sum id (\<lambda>c. c\<lparr>uuid := u1\<rparr>) (getConfigTemplate h u2)"
  by (simp add: getConfigTemplate_def Let_def split: sum.splits)

text \<open>
  C3, as stated, fails: \<open>window.nativeAppearance\<close> (and \<open>window.vibrancy\<close>) is not a
  literal but \<open>process.platform === 'darwin'\<close>, so it differs between macOS and Linux.
\<close>

theorem getConfigTemplate_platform_counterexample:
  "map_sum id (\<lambda>c. nativeAppearance (window c))
      (getConfigTemplate (example_host ''en-US'' ''darwin'') example_uuid) = Inr True
   \<and> map_sum id (\<lambda>c. nativeAppearance (window c))
      (getConfigTemplate (example_host ''en-US'' ''linux'') example_uuid) = Inr False"
  by (simp add: getConfigTemplate_def example_host_def example_parse_def Let_def)

text \<open>
  C3, amended: apart from \<open>version\<close>, \<open>appLang\<close>, \<open>uuid\<close>, \<open>window.nativeAppearance\<close> and
  \<open>window.vibrancy\<close>, every field is the same constant in the results of any two host
  environments; \<open>window.nativeAppearance\<close> and \<open>window.vibrancy\<close> both equal
  \<open>process.platform === 'darwin'\<close>; and two environments that agree on whether the
  platform is 'darwin' give results that are equal in every field other than \<open>version\<close>,
  \<open>appLang\<close> and \<open>uuid\<close>.
\<close>

theorem getConfigTemplate_constants:
  assumes "getConfigTemplate h1 u1 = Inr c1" and "getConfigTemplate h2 u2 = Inr c2"
  shows "c1\<lparr>version := v, appLang := l, uuid := u,
             window := (window c1)\<lparr>nativeAppearance := a, vibrancy := b\<rparr>\<rparr>
         = c2\<lparr>version := v, appLang := l, uuid := u,
             window := (window c2)\<lparr>nativeAppearance := a, vibrancy := b\<rparr>\<rparr>
       \<and> nativeAppearance (window c1) = (platform h1 = ''darwin'')
       \<and> vibrancy (window c1) = (platform h1 = ''darwin'')
       \<and> ((platform h1 = ''darwin'') = (platform h2 = ''darwin'') \<longrightarrow>
            c1\<lparr>version := v, appLang := l, uuid := u\<rparr> = c2\<lparr>version := v, appLang := l, uuid := u\<rparr>)"
  using getConfigTemplate_masked [OF assms] getConfigTemplate_host_fields(4,5) [OF assms(1)]
    getConfigTemplate_same_platform [OF assms]
  by blast

theorem getConfigTemplate_constants_witness:
  "\<exists>c1 c2 c3.
     getConfigTemplate (example_host ''de-DE'' ''darwin'') ''id-1'' = Inr c1
     \<and> getConfigTemplate (example_host ''ja-JP'' ''linux'') ''id-2'' = Inr c2
     \<and> getConfigTemplate (example_host ''en-US'' ''win32'') ''id-3'' = Inr c3
     \<and> c1\<lparr>version := '''', appLang := '''', uuid := '''',
           window := (window c1)\<lparr>nativeAppearance := False, vibrancy := False\<rparr>\<rparr>
       = c2\<lparr>version := '''', appLang := '''', uuid := '''',
           window := (window c2)\<lparr>nativeAppearance := False, vibrancy := False\<rparr>\<rparr>
     \<and> nativeAppearance (window c1) \<and> vibrancy (window c1)
     \<and> \<not> nativeAppearance (window c2) \<and> \<not> vibrancy (window c2)
     \<and> c2\<lparr>version := '''', appLang := '''', uuid := ''''\<rparr>
       = c3\<lparr>version := '''', appLang := '''', uuid := ''''\<rparr>"
proof -
  obtain c1 where c1: "getConfigTemplate (example_host ''de-DE'' ''darwin'') ''id-1'' = Inr c1"
    using example_host_returns by blast
  obtain c2 where c2: "getConfigTemplate (example_host ''ja-JP'' ''linux'') ''id-2'' = Inr c2"
    using example_host_returns by blast
  obtain c3 where c3: "getConfigTemplate (example_host ''en-US'' ''win32'') ''id-3'' = Inr c3"
    using example_host_returns by blast
  have os: "platform (example_host ''de-DE'' ''darwin'') = ''darwin''"
    "platform (example_host ''ja-JP'' ''linux'') \<noteq> ''darwin''"
    "platform (example_host ''en-US'' ''win32'') \<noteq> ''darwin''"
    by (simp_all add: example_host_def)
  from getConfigTemplate_constants
    [OF c1 c2, where v = "''''" and l = "''''" and u = "''''" and a = False and b = False] os
  have first: "c1\<lparr>version := '''', appLang := '''', uuid := '''',
           window := (window c1)\<lparr>nativeAppearance := False, vibrancy := False\<rparr>\<rparr>
       = c2\<lparr>version := '''', appLang := '''', uuid := '''',
           window := (window c2)\<lparr>nativeAppearance := False, vibrancy := False\<rparr>\<rparr>
     \<and> nativeAppearance (window c1) \<and> vibrancy (window c1)"
    by blast
  from getConfigTemplate_constants
    [OF c2 c3, where v = "''''" and l = "''''" and u = "''''" and a = False and b = False] os
  have second: "\<not> nativeAppearance (window c2) \<and> \<not> vibrancy (window c2)
     \<and> c2\<lparr>version := '''', appLang := '''', uuid := ''''\<rparr>
       = c3\<lparr>version := '''', appLang := '''', uuid := ''''\<rparr>"
    by blast
  from c1 c2 c3 first second show ?thesis by blast
qed

text \<open>
  C4: the \<open>version\<close> field of a returned record is the version string of the running
  application, \<open>app.getVersion()\<close>. (The module reads it once, into \<open>ZETTLR_VERSION\<close>.)
\<close>

theorem getConfigTemplate_version:
  assumes "getConfigTemplate h u = Inr c"
  shows "version c = getVersion h"
  using getConfigTemplate_host_fields(1) [OF assms] by (simp add: ZETTLR_VERSION_def)

theorem getConfigTemplate_version_witness:
  "\<exists>c. getConfigTemplate (example_host ''de-DE'' ''linux'') example_uuid = Inr c
       \<and> version c = ''3.0.0''"
proof -
  obtain c where c: "getConfigTemplate (example_host ''de-DE'' ''linux'') example_uuid = Inr c"
    using example_host_returns by blast
  from getConfigTemplate_version [OF c] have "version c = ''3.0.0''"
    by (simp add: example_host_def)
  with c show ?thesis by blast
qed

text \<open>
  C6: with the lookup as the spec describes it, a host locale that has a language subtag
  resolves as follows. If the locale is itself an installed tag, \<open>appLang\<close> is that tag
  (exact match). Otherwise, if some installed tag has the locale's language, \<open>appLang\<close>
  is an installed tag with that language (language-only match). Otherwise \<open>appLang\<close> is
  "en-US" (fallback). In each case a configuration is returned.
\<close>

theorem getConfigTemplate_installed:
  assumes lang: "language (parse h (getLocale h)) = Val l"
    and lookup: "languageFile h = (\<lambda>query. Inr (getLanguageFile (parse h) installed query))"
  shows "\<exists>c. getConfigTemplate h u = Inr c \<and>
           (if getLocale h \<in> set installed then appLang c = getLocale h
            else if \<exists>t \<in> set installed. language (parse h t) = Val l
                 then appLang c \<in> set installed \<and> language (parse h (appLang c)) = Val l
                 else appLang c = ''en-US'')"
proof -
  let ?q = "getLocale h"
  let ?cand = "getLanguageFile (parse h) installed ?q"
  have ne: "language (parse h ?q) \<noteq> Undefined"
    using lang by simp
  have "languageFile h ?q = Inr ?cand"
    using lookup by simp
  from getConfigTemplate_lookup [OF ne this]
  obtain c where c: "getConfigTemplate h u = Inr c" "appLang c = tag ?cand"
    by blast
  have "if ?q \<in> set installed then tag ?cand = ?q
        else if \<exists>t \<in> set installed. language (parse h t) = Val l
             then tag ?cand \<in> set installed \<and> language (parse h (tag ?cand)) = Val l
             else tag ?cand = ''en-US''"
  proof (cases "find (\<lambda>t. t = ?q) installed")
    case (Some t)
    then have "t = ?q" "?q \<in> set installed"
      by (auto dest: find_Some_set)
    with Some show ?thesis
      by (simp add: getLanguageFile_def)
  next
    case None
    then have notin: "?q \<notin> set installed"
      by (auto dest: find_None_set)
    show ?thesis
    proof (cases "find (\<lambda>t. language (parse h t) = language (parse h ?q)) installed")
      case (Some t)
      then have "t \<in> set installed" "language (parse h t) = Val l"
        using lang by (auto dest: find_Some_set)
      with None Some notin show ?thesis
        by (auto simp add: getLanguageFile_def)
    next
      case no_close: None
      then have "\<not> (\<exists>t \<in> set installed. language (parse h t) = Val l)"
        using lang by (auto dest: find_None_set)
      with None no_close notin show ?thesis
        by (simp add: getLanguageFile_def)
    qed
  qed
  with c show ?thesis by auto
qed

theorem getConfigTemplate_installed_witness:
  "(\<exists>c. getConfigTemplate (example_translated_host ''de-DE'') example_uuid = Inr c
        \<and> appLang c = ''de-DE'')
   \<and> (\<exists>c. getConfigTemplate (example_translated_host ''de-CH'') example_uuid = Inr c
        \<and> appLang c = ''de-DE'')
   \<and> (\<exists>c. getConfigTemplate (example_translated_host ''ja-JP'') example_uuid = Inr c
        \<and> appLang c = ''en-US'')"
proof -
  from getConfigTemplate_installed [OF example_translated_host_language(1) example_translated_host_lookup,
      where u = example_uuid]
  have exact: "\<exists>c. getConfigTemplate (example_translated_host ''de-DE'') example_uuid = Inr c
                 \<and> appLang c = ''de-DE''"
    by (simp add: example_translated_host_def example_installed_def)
  from getConfigTemplate_installed [OF example_translated_host_language(2) example_translated_host_lookup,
      where u = example_uuid]
  have close: "\<exists>c. getConfigTemplate (example_translated_host ''de-CH'') example_uuid = Inr c
                 \<and> appLang c = ''de-DE''"
    by (auto simp add: example_translated_host_def example_installed_def example_parse_def split: if_splits)
  from getConfigTemplate_installed [OF example_translated_host_language(3) example_translated_host_lookup,
      where u = example_uuid]
  have fallback: "\<exists>c. getConfigTemplate (example_translated_host ''ja-JP'') example_uuid = Inr c
                    \<and> appLang c = ''en-US''"
    by (simp add: example_translated_host_def example_installed_def example_parse_def)
  from exact close fallback show ?thesis by blast
qed

text \<open>
  C7: in every returned record each field of a string-union type holds one of the
  literals its type declares; in particular \<open>sorting\<close> is "natural" or "ascii",
  \<open>autoDarkMode\<close> is one of "off", "system", "schedule", "auto", and \<open>fileManagerMode\<close>
  is one of "thin", "combined", "expanded".
\<close>

theorem getConfigTemplate_enums:
  assumes "getConfigTemplate h u = Inr c"
  shows "ConfigOptions_enumerated c
       \<and> sorting c \<in> {''natural'', ''ascii''}
       \<and> autoDarkMode c \<in> {''off'', ''system'', ''schedule'', ''auto''}
       \<and> fileManagerMode c \<in> {''thin'', ''combined'', ''expanded''}"
  using getConfigTemplate_enumerated [OF assms] by (simp add: ConfigOptions_enumerated_def)

theorem getConfigTemplate_enums_witness:
  "\<exists>c. getConfigTemplate (example_host ''de-DE'' ''linux'') example_uuid = Inr c
       \<and> ConfigOptions_enumerated c
       \<and> sorting c \<in> {''natural'', ''ascii''}
       \<and> autoDarkMode c \<in> {''off'', ''system'', ''schedule'', ''auto''}
       \<and> fileManagerMode c \<in> {''thin'', ''combined'', ''expanded''}"
proof -
  obtain c where c: "getConfigTemplate (example_host ''de-DE'' ''linux'') example_uuid = Inr c"
    using example_host_returns by blast
  from getConfigTemplate_enums [OF c] c show ?thesis by blast
qed

text \<open>
  C8: the \<open>attachmentExtensions\<close> list of every returned record has pairwise distinct
  entries.
\<close>

theorem getConfigTemplate_attachmentExtensions:
  assumes "getConfigTemplate h u = Inr c"
  shows "distinct (attachmentExtensions c)"
  using getConfigTemplate_host_fields(3) [OF assms] by (simp add: ATTACHMENT_EXTENSIONS_def)

theorem getConfigTemplate_attachmentExtensions_witness:
  "\<exists>c. getConfigTemplate (example_host ''de-DE'' ''linux'') example_uuid = Inr c
       \<and> distinct (attachmentExtensions c) \<and> length (attachmentExtensions c) = 22"
proof -
  obtain c where c: "getConfigTemplate (example_host ''de-DE'' ''linux'') example_uuid = Inr c"
    using example_host_returns by blast
  have "length (attachmentExtensions c) = 22"
    using getConfigTemplate_host_fields(3) [OF c] by (simp add: ATTACHMENT_EXTENSIONS_def)
  with getConfigTemplate_attachmentExtensions [OF c] c show ?thesis by blast
qed

section \<open>Properties of the item mixin\<close>

text \<open>
  C9: on an item whose \<open>obj.dirNotFoundFlag\<close> is \<open>true\<close>, \<open>requestSelection\<close> stops the
  propagation of the event and does nothing else, whatever the event: the component is
  unchanged, and so is the world outside it (no call on \<open>ipcRenderer\<close>, no toggling of
  the file list).
\<close>

theorem requestSelection_dirNotFound:
  assumes "dirNotFoundFlag (obj this) = Val True"
  shows "requestSelection ev this w = (ev\<lparr>propagationStopped := True\<rparr>, this, w)"
  using assms by (simp add: requestSelection_def)

theorem requestSelection_dirNotFound_witness:
  "dirNotFoundFlag (obj (example_component (example_dir (Val True)))) = Val True
   \<and> requestSelection example_click (example_component (example_dir (Val True))) example_world
     = (example_click\<lparr>propagationStopped := True\<rparr>,
        example_component (example_dir (Val True)), example_world)
   \<and> ipcRenderer example_world = []"
proof -
  have flag: "dirNotFoundFlag (obj (example_component (example_dir (Val True)))) = Val True"
    by (simp add: example_component_def example_dir_def)
  from flag requestSelection_dirNotFound [OF flag, where ev = example_click and w = example_world]
  show ?thesis by (simp add: example_world_def)
qed

text \<open>
  C10: \<open>finishNameEditing\<close> with the item's current name sends nothing and leaves the
  component (so \<open>nameEditing\<close>) as it is, with no promise pending. With another name it
  hands exactly one message to \<open>ipcRenderer.invoke\<close>, on the channel "application", with
  the command "dir-rename" for a directory and "file-rename" otherwise and the payload
  \<open>{ path, name: newName }\<close>; \<open>nameEditing\<close> is not touched by the call itself, and when
  the promise settles, resolved or rejected, the handlers set \<open>nameEditing\<close> to \<open>false\<close>
  and send nothing more.
\<close>

theorem finishNameEditing_rename:
  "(newName = name (obj this) \<longrightarrow> finishNameEditing newName this w = (this, w, False))
   \<and> (newName \<noteq> name (obj this) \<longrightarrow>
        finishNameEditing newName this w =
          (this,
           w\<lparr>ipcRenderer := ipcRenderer w @
             [Invoke ''application''
               \<lparr> command = (if descriptor.type (obj this) = ''directory''
                             then ''dir-rename'' else ''file-rename''),
                 payload = Rename (path (obj this)) newName \<rparr>]\<rparr>,
           True)
        \<and> nameEditing (fst (finishNameEditing_settled r this' w')) = False
        \<and> ipcRenderer (snd (finishNameEditing_settled r this' w')) = ipcRenderer w')"
  by (simp add: finishNameEditing_def finishNameEditing_settled_def Let_def split: settlement.split)

theorem finishNameEditing_rename_witness:
  "finishNameEditing ''a.md'' (example_component example_file) example_world
     = (example_component example_file, example_world, False)
   \<and> finishNameEditing ''b.md'' (example_component example_file) example_world
     = (example_component example_file,
        example_world\<lparr>ipcRenderer :=
          [Invoke ''application''
            \<lparr> command = ''file-rename'', payload = Rename ''/notes/a.md'' ''b.md'' \<rparr>]\<rparr>,
        True)
   \<and> nameEditing (example_component example_file)
   \<and> \<not> nameEditing (fst (finishNameEditing_settled (Rejected ''EEXIST'')
          (example_component example_file) example_world))"
proof -
  have same: "''a.md'' = name (obj (example_component example_file))"
    by (simp add: example_component_def example_file_def)
  have other: "''b.md'' \<noteq> name (obj (example_component example_file))"
    by (simp add: example_component_def example_file_def)
  from finishNameEditing_rename
    [where newName = "''a.md''" and this = "example_component example_file"
       and w = example_world and r = Resolved
       and this' = "example_component example_file" and w' = example_world]
    same
  have first: "finishNameEditing ''a.md'' (example_component example_file) example_world
     = (example_component example_file, example_world, False)"
    by blast
  from finishNameEditing_rename
    [where newName = "''b.md''" and this = "example_component example_file"
       and w = example_world and r = "Rejected ''EEXIST''"
       and this' = "example_component example_file" and w' = example_world]
    other
  have second: "finishNameEditing ''b.md'' (example_component example_file) example_world
     = (example_component example_file,
        example_world\<lparr>ipcRenderer :=
          [Invoke ''application''
            \<lparr> command = ''file-rename'', payload = Rename ''/notes/a.md'' ''b.md'' \<rparr>]\<rparr>,
        True)
     \<and> \<not> nameEditing (fst (finishNameEditing_settled (Rejected ''EEXIST'')
          (example_component example_file) example_world))"
    by (simp add: example_component_def example_file_def example_world_def)
  have "nameEditing (example_component example_file)"
    by (simp add: example_component_def)
  with first second show ?thesis by blast
qed

end
